theory Spec2Isabelle
  imports Complex_Main
begin

section \<open>Values, exceptions and the VISA session\<close>

text \<open>
  The driver \<^verbatim>\<open>tek_mdo/main.py\<close> formats SCPI command texts and hands them to a
  pyvisa message-based resource. The model below follows the three classes of the
  file: \<^verbatim>\<open>BaseInstrument\<close>, \<^verbatim>\<open>VisaInstrument\<close> and \<^verbatim>\<open>ModelMDO34\<close>.

  A numeric argument is a Python \<^verbatim>\<open>int | float\<close>. Every int and every finite
  float is an exact rational; a float may also be an infinity or a NaN. The two
  float zeros compare equal and are one value here.
\<close>

datatype number = Finite rat | PosInf | NegInf | NaN

text \<open>Python's \<^verbatim>\<open>a <= b\<close> on numbers: every comparison with a NaN is false.\<close>

fun num_le :: "number \<Rightarrow> number \<Rightarrow> bool" where
  "num_le NaN b = False"
| "num_le a NaN = False"
| "num_le NegInf b = True"
| "num_le a PosInf = True"
| "num_le (Finite a) (Finite b) = (a \<le> b)"
| "num_le a b = False"

text \<open>
  What the pyvisa resource may raise: \<^verbatim>\<open>pyvisa.VisaIOError\<close> (with its status
  code) or any other exception of the library.
\<close>

datatype visa_error = VisaIOError int | VisaOther string

text \<open>
  Exceptions leaving a method of the driver: the \<^verbatim>\<open>ValueError\<close>s and
  \<^verbatim>\<open>InstrIOError\<close>s that the module raises itself (with their message),
  exceptions of the transport that pass through unchanged, and the two exceptions
  that formatting a command text can raise: the \<^verbatim>\<open>ValueError\<close> of the
  int-to-text digit limit and the \<^verbatim>\<open>OverflowError\<close> of an int too large for a
  float.
\<close>

datatype exn = ValueError string | InstrIOError string | Visa visa_error | OverflowError string

text \<open>
  The calls made on \<^verbatim>\<open>self._inst\<close>, in order. The driver keeps no other state
  besides the resource name.
\<close>

datatype call = Write string | Query string | Close

record instr =
  resource_name :: string
  calls :: "call list"

text \<open>Constructor arguments of \<^verbatim>\<open>VisaInstrument.__init__\<close>.\<close>

record init_args =
  arg_resource_name :: string
  read_termination :: string
  write_termination :: string
  timeout :: int
  open_timeout :: int
  query_delay :: rat
  encoding :: string

definition VI_READ_TERMINATION :: string where
  "VI_READ_TERMINATION = [CHR 0x0A]"

definition VI_WRITE_TERMINATION :: string where
  "VI_WRITE_TERMINATION = [CHR 0x0A]"

definition VI_TIMEOUT :: int where
  "VI_TIMEOUT = 2000"

definition VI_OPEN_TIMEOUT :: int where
  "VI_OPEN_TIMEOUT = 0"

definition VI_QUERY_DELAY :: rat where
  "VI_QUERY_DELAY = 1 / 1000"

definition default_args :: "string \<Rightarrow> init_args" where
  "default_args name =
     \<lparr>arg_resource_name = name,
      read_termination = VI_READ_TERMINATION,
      write_termination = VI_WRITE_TERMINATION,
      timeout = VI_TIMEOUT,
      open_timeout = VI_OPEN_TIMEOUT,
      query_delay = VI_QUERY_DELAY,
      encoding = ''ascii''\<rparr>"

text \<open>
  pyvisa is not part of the repository, so the resource is a parameter: for each
  method the driver calls, a function from the calls made so far (and the message)
  to what the library returns or raises. \<open>open_resource\<close> stands for
  \<^verbatim>\<open>pyvisa.ResourceManager().open_resource(...)\<close>.
\<close>

record transport =
  open_resource :: "init_args \<Rightarrow> visa_error + unit"
  inst_write :: "call list \<Rightarrow> string \<Rightarrow> visa_error + nat"
  inst_query :: "call list \<Rightarrow> string \<Rightarrow> visa_error + string"
  inst_close :: "call list \<Rightarrow> visa_error + unit"

text \<open>
  Python's own conversions of floating-point values are parameters as well:
  \<open>format_num\<close> is \<^verbatim>\<open>format(x, spec)\<close> for the presentation types the driver
  uses, \<open>repr_num\<close> and \<open>repr_str\<close> are \<^verbatim>\<open>repr\<close>, and \<open>py_float\<close> is
  \<^verbatim>\<open>float(text)\<close>, which gives the message of its \<^verbatim>\<open>ValueError\<close> when the text
  is no number. \<open>format_num\<close> gives the text where formatting returns one; when
  it raises instead is decided by \<open>format_float\<close> below.
  \<open>int_max_str_digits\<close> is \<^verbatim>\<open>sys.get_int_max_str_digits()\<close>, the interpreter's
  limit on the digits of an int turned into text: 4300 by default, 0 for no limit.
\<close>

datatype fspec = SciE nat | FixedF nat

record builtins =
  format_num :: "fspec \<Rightarrow> number \<Rightarrow> string"
  repr_num :: "number \<Rightarrow> string"
  repr_str :: "string \<Rightarrow> string"
  py_float :: "string \<Rightarrow> string + number"
  int_max_str_digits :: nat

type_synonym 'a result = "(exn + 'a) \<times> instr"

section \<open>Text helpers\<close>

abbreviation DQ :: char where
  "DQ \<equiv> CHR 0x22"

text \<open>Decimal text of an int: \<^verbatim>\<open>format(n, 'd')\<close>, \<^verbatim>\<open>str(n)\<close> and \<^verbatim>\<open>repr(n)\<close>.\<close>

fun str_nat :: "nat \<Rightarrow> string" where
  "str_nat n =
     (if n < 10 then [''0123456789'' ! n]
      else str_nat (n div 10) @ [''0123456789'' ! (n mod 10)])"

declare str_nat.simps [simp del]

definition str_int :: "int \<Rightarrow> string" where
  "str_int i = (if i < 0 then CHR ''-'' # str_nat (nat (- i)) else str_nat (nat i))"

text \<open>
  The interpreter refuses to turn an int into decimal text when a limit is set and
  the int has more digits (the sign not counted) than the limit: \<^verbatim>\<open>f'{n:d}'\<close>,
  \<^verbatim>\<open>f'{n}'\<close> and \<^verbatim>\<open>f'{n!r}'\<close> then raise a \<^verbatim>\<open>ValueError\<close>. The limit is
  modelled where it decides whether a command reaches the session; inside the
  message of an error that is raised either way (\<open>check_ch_num\<close>) the text is
  \<open>str_int\<close>.
\<close>

definition exceeds_str_limit :: "builtins \<Rightarrow> int \<Rightarrow> bool" where
  "exceeds_str_limit P n =
     (int_max_str_digits P \<noteq> 0 \<and> int_max_str_digits P < length (str_nat (nat \<bar>n\<bar>)))"

definition int_text :: "builtins \<Rightarrow> int \<Rightarrow> exn + string" where
  "int_text P n =
     (if exceeds_str_limit P n then
        Inl (ValueError
          (''Exceeds the limit ('' @ str_nat (int_max_str_digits P)
           @ '' digits) for integer string conversion; ''
           @ ''use sys.set_int_max_str_digits() to increase the limit''))
      else Inr (str_int n))"

text \<open>
  Formatting with \<^verbatim>\<open>E\<close> or \<^verbatim>\<open>f\<close> converts an int to a float first, and the
  conversion raises \<^verbatim>\<open>OverflowError\<close> when the int rounds beyond the largest
  double, that is from \<open>2 ^ 1024 - 2 ^ 970\<close> on in absolute value. No finite float
  is that large, so a finite value of that size is an int.
\<close>

definition float_limit :: rat where
  "float_limit = 2 ^ 1024 - 2 ^ 970"

fun float_overflow :: "number \<Rightarrow> bool" where
  "float_overflow (Finite q) = (float_limit \<le> \<bar>q\<bar>)"
| "float_overflow PosInf = False"
| "float_overflow NegInf = False"
| "float_overflow NaN = False"

definition format_float :: "builtins \<Rightarrow> fspec \<Rightarrow> number \<Rightarrow> exn + string" where
  "format_float P spec x =
     (if float_overflow x then Inl (OverflowError ''int too large to convert to float'')
      else Inr (format_num P spec x))"

text \<open>
  \<^verbatim>\<open>str.isspace\<close> on one character, for the code points a \<open>char\<close> can hold:
  9 to 13, 28 to 32, 133 and 160.
\<close>

definition is_space :: "char \<Rightarrow> bool" where
  "is_space c =
     (let k = (of_char c :: nat)
      in (9 \<le> k \<and> k \<le> 13) \<or> (28 \<le> k \<and> k \<le> 32) \<or> k = 133 \<or> k = 160)"

text \<open>\<^verbatim>\<open>s.strip(chars)\<close>: drop the characters of the set from both ends.\<close>

definition strip_where :: "(char \<Rightarrow> bool) \<Rightarrow> string \<Rightarrow> string" where
  "strip_where p s = rev (dropWhile p (rev (dropWhile p s)))"

definition strip :: "string \<Rightarrow> string" where
  "strip s = strip_where is_space s"

definition strip_quotes :: "string \<Rightarrow> string" where
  "strip_quotes s = strip_where (\<lambda>c. c = DQ) s"

section \<open>VisaInstrument\<close>

text \<open>
  \<^verbatim>\<open>write\<close> (here \<open>write_message\<close>), \<^verbatim>\<open>command\<close> and \<^verbatim>\<open>query\<close> delegate to
  the resource. The catalog always calls them with the message alone, so the
  optional termination, encoding and delay stay at \<^verbatim>\<open>None\<close> and are left out.
\<close>

definition write_message :: "transport \<Rightarrow> instr \<Rightarrow> string \<Rightarrow> nat result" where
  "write_message T s message =
     (case inst_write T (calls s) message of
        Inl e \<Rightarrow> Inl (Visa e)
      | Inr n \<Rightarrow> Inr n,
      s\<lparr>calls := calls s @ [Write message]\<rparr>)"

definition command :: "transport \<Rightarrow> instr \<Rightarrow> string \<Rightarrow> nat result" where
  "command T s message = write_message T s message"

definition query :: "transport \<Rightarrow> instr \<Rightarrow> string \<Rightarrow> string result" where
  "query T s message =
     (case inst_query T (calls s) message of
        Inl e \<Rightarrow> Inl (Visa e)
      | Inr r \<Rightarrow> Inr r,
      s\<lparr>calls := calls s @ [Query message]\<rparr>)"

definition idn :: "transport \<Rightarrow> instr \<Rightarrow> string result" where
  "idn T s = query T s ''*IDN?''"

definition close :: "transport \<Rightarrow> instr \<Rightarrow> unit result" where
  "close T s =
     (case inst_close T (calls s) of
        Inl e \<Rightarrow> Inl (Visa e)
      | Inr u \<Rightarrow> Inr (),
      s\<lparr>calls := calls s @ [Close]\<rparr>)"

text \<open>
  \<^verbatim>\<open>_check_communication\<close>: the \<^verbatim>\<open>except\<close> clause names \<^verbatim>\<open>pyvisa.VisaIOError\<close>
  only, so the \<^verbatim>\<open>ValueError\<close> raised inside the \<^verbatim>\<open>try\<close> for an empty identity
  and any other exception of the query leave the method as they are.
\<close>

definition check_communication :: "transport \<Rightarrow> instr \<Rightarrow> unit result" where
  "check_communication T s =
     (case idn T s of
        (Inl (Visa (VisaIOError c)), s') \<Rightarrow>
          (Inl (InstrIOError ''Check communication failed.''), s')
      | (Inl e, s') \<Rightarrow> (Inl e, s')
      | (Inr i, s') \<Rightarrow>
          (if i = [] then (Inl (ValueError ''Empty IDN.''), s') else (Inr (), s')))"

text \<open>
  \<^verbatim>\<open>__init__\<close>: open the resource, then check the communication. An exception
  leaves no instance behind.
\<close>

definition init :: "transport \<Rightarrow> init_args \<Rightarrow> exn + instr" where
  "init T args =
     (case open_resource T args of
        Inl e \<Rightarrow> Inl (Visa e)
      | Inr u \<Rightarrow>
          (case check_communication T \<lparr>resource_name = arg_resource_name args, calls = []\<rparr> of
             (Inl e, s) \<Rightarrow> Inl e
           | (Inr v, s) \<Rightarrow> Inr s))"

text \<open>\<^verbatim>\<open>create\<close>: a bare \<^verbatim>\<open>except:\<close> around the construction.\<close>

definition create :: "transport \<Rightarrow> init_args \<Rightarrow> exn + instr option" where
  "create T args =
     (case init T args of
        Inl e \<Rightarrow> Inr None
      | Inr instance \<Rightarrow> Inr (Some instance))"

section \<open>ModelMDO34\<close>

definition CH_NUMS :: "int list" where
  "CH_NUMS = [1, 2, 3, 4]"

definition check_ch_num :: "int \<Rightarrow> exn + unit" where
  "check_ch_num ch_num =
     (if ch_num \<notin> set CH_NUMS then Inl (ValueError (''Invalid ch_num: '' @ str_int ch_num))
      else Inr ())"

text \<open>A setter returns \<^verbatim>\<open>None\<close> whatever number of bytes the write reports.\<close>

definition discard :: "'a result \<Rightarrow> unit result" where
  "discard r = (case r of (Inl e, s) \<Rightarrow> (Inl e, s) | (Inr v, s) \<Rightarrow> (Inr (), s))"

text \<open>
  The float literal \<^verbatim>\<open>10E-12\<close> is ten times ten to the power -12, that is 1e-11,
  and \<^verbatim>\<open>400 * 10E-12\<close> evaluates to the double \<^verbatim>\<open>3.9999999999999994e-09\<close>
  (\<^verbatim>\<open>0x1.12e0be826d694p-28\<close>), whose exact value is \<open>1208925819614629 / 2 ^ 78\<close>:
  four nanoseconds, not 400 picoseconds.
\<close>

definition x_scale_lo :: number where
  "x_scale_lo = Finite (1208925819614629 / 2 ^ 78)"

definition set_x_scale :: "builtins \<Rightarrow> transport \<Rightarrow> instr \<Rightarrow> number \<Rightarrow> unit result" where
  "set_x_scale P T s scale =
     (if \<not> (num_le x_scale_lo scale \<and> num_le scale (Finite 1000)) then
        (Inl (ValueError
           (''Parameter scale must be between 400 * 10E-12 (400 ps) and 1000, but got ''
            @ repr_num P scale)), s)
      else
        (case format_float P (SciE 4) scale of
           Inl e \<Rightarrow> (Inl e, s)
         | Inr txt \<Rightarrow>
             (let cmd = ''HORizontal:SCAle '' @ txt
              in (Inr (), s))))"

text \<open>
  The channel catalog. Each method checks the channel number first and its value
  second; only then is the command text formatted and handed to the session. The
  label is a \<^verbatim>\<open>str\<close> by its type, so of \<^verbatim>\<open>not isinstance(label, str) or len(label) > 30\<close>
  the length test remains. Past \<open>check_ch_num\<close> the channel number is one of 1, 2,
  3, 4, a single digit that no digit limit refuses (\<open>int_text_channel\<close> below), so
  its text is \<open>str_int\<close>.
\<close>

definition set_channel_label ::
  "builtins \<Rightarrow> transport \<Rightarrow> instr \<Rightarrow> int \<Rightarrow> string \<Rightarrow> unit result" where
  "set_channel_label P T s ch_num label =
     (case check_ch_num ch_num of
        Inl e \<Rightarrow> (Inl e, s)
      | Inr u \<Rightarrow>
          if length label > 30 then
            (Inl (ValueError
               (''Parameter label must be a str limited to 30 characters, but got ''
                @ repr_str P label)), s)
          else
            (let cmd = ''CH'' @ str_int ch_num @ '':LABel '' @ [DQ] @ label @ [DQ]
             in discard (command T s cmd)))"

definition get_channel_label :: "transport \<Rightarrow> instr \<Rightarrow> int \<Rightarrow> string result" where
  "get_channel_label T s ch_num =
     (case check_ch_num ch_num of
        Inl e \<Rightarrow> (Inl e, s)
      | Inr u \<Rightarrow>
          (let cmd = ''CH'' @ str_int ch_num @ '':LABel?''
           in case query T s cmd of
                (Inl e, s') \<Rightarrow> (Inl e, s')
              | (Inr r, s') \<Rightarrow> (Inr (strip_quotes (strip r)), s')))"

definition set_channel_coupling ::
  "builtins \<Rightarrow> transport \<Rightarrow> instr \<Rightarrow> int \<Rightarrow> string \<Rightarrow> unit result" where
  "set_channel_coupling P T s ch_num coupling =
     (case check_ch_num ch_num of
        Inl e \<Rightarrow> (Inl e, s)
      | Inr u \<Rightarrow>
          if \<not> coupling \<in> {''AC'', ''DC'', ''DCREJect''} then
            (Inl (ValueError (''Invalid coupling: '' @ repr_str P coupling)), s)
          else
            (let cmd = ''CH'' @ str_int ch_num @ '':COUPling '' @ coupling
             in discard (command T s cmd)))"

definition get_channel_coupling :: "transport \<Rightarrow> instr \<Rightarrow> int \<Rightarrow> string result" where
  "get_channel_coupling T s ch_num =
     (case check_ch_num ch_num of
        Inl e \<Rightarrow> (Inl e, s)
      | Inr u \<Rightarrow>
          (let cmd = ''CH'' @ str_int ch_num @ '':COUPling?''
           in case query T s cmd of
                (Inl e, s') \<Rightarrow> (Inl e, s')
              | (Inr r, s') \<Rightarrow> (Inr (strip r), s')))"

definition set_channel_bandwidth ::
  "builtins \<Rightarrow> transport \<Rightarrow> instr \<Rightarrow> int \<Rightarrow> number \<Rightarrow> unit result" where
  "set_channel_bandwidth P T s ch_num bandwidth =
     (case check_ch_num ch_num of
        Inl e \<Rightarrow> (Inl e, s)
      | Inr u \<Rightarrow>
          if num_le bandwidth (Finite 0) then
            (Inl (ValueError
               (''Parameter bandwidth must be a positive float, but got ''
                @ repr_num P bandwidth)), s)
          else
            (case format_float P (SciE 4) bandwidth of
               Inl e \<Rightarrow> (Inl e, s)
             | Inr txt \<Rightarrow>
                 (let cmd = ''CH'' @ str_int ch_num @ '':BANdwidth '' @ txt
                  in discard (command T s cmd))))"

text \<open>A numeric getter passes the response to \<^verbatim>\<open>float\<close>.\<close>

definition parse_float :: "builtins \<Rightarrow> string result \<Rightarrow> number result" where
  "parse_float P r =
     (case r of
        (Inl e, s') \<Rightarrow> (Inl e, s')
      | (Inr txt, s') \<Rightarrow>
          (case py_float P txt of
             Inl msg \<Rightarrow> (Inl (ValueError msg), s')
           | Inr x \<Rightarrow> (Inr x, s')))"

definition get_channel_bandwidth ::
  "builtins \<Rightarrow> transport \<Rightarrow> instr \<Rightarrow> int \<Rightarrow> number result" where
  "get_channel_bandwidth P T s ch_num =
     (case check_ch_num ch_num of
        Inl e \<Rightarrow> (Inl e, s)
      | Inr u \<Rightarrow>
          (let cmd = ''CH'' @ str_int ch_num @ '':BANdwidth?''
           in parse_float P (query T s cmd)))"

definition set_channel_scale ::
  "builtins \<Rightarrow> transport \<Rightarrow> instr \<Rightarrow> int \<Rightarrow> number \<Rightarrow> unit result" where
  "set_channel_scale P T s ch_num scale =
     (case check_ch_num ch_num of
        Inl e \<Rightarrow> (Inl e, s)
      | Inr u \<Rightarrow>
          if num_le scale (Finite 0) then
            (Inl (ValueError
               (''Parameter scale must be a positive float, but got ''
                @ repr_num P scale)), s)
          else
            (case format_float P (SciE 3) scale of
               Inl e \<Rightarrow> (Inl e, s)
             | Inr txt \<Rightarrow>
                 (let cmd = ''CH'' @ str_int ch_num @ '':SCAle '' @ txt
                  in discard (command T s cmd))))"

definition get_channel_scale ::
  "builtins \<Rightarrow> transport \<Rightarrow> instr \<Rightarrow> int \<Rightarrow> number result" where
  "get_channel_scale P T s ch_num =
     (case check_ch_num ch_num of
        Inl e \<Rightarrow> (Inl e, s)
      | Inr u \<Rightarrow>
          (let cmd = ''CH'' @ str_int ch_num @ '':SCAle?''
           in parse_float P (query T s cmd)))"

definition set_channel_position ::
  "builtins \<Rightarrow> transport \<Rightarrow> instr \<Rightarrow> int \<Rightarrow> number \<Rightarrow> unit result" where
  "set_channel_position P T s ch_num position =
     (case check_ch_num ch_num of
        Inl e \<Rightarrow> (Inl e, s)
      | Inr u \<Rightarrow>
          if \<not> (num_le (Finite (- 8)) position \<and> num_le position (Finite 8)) then
            (Inl (ValueError
               (''Parameter position must be between -8 and 8, but got ''
                @ repr_num P position)), s)
          else
            (case format_float P (FixedF 3) position of
               Inl e \<Rightarrow> (Inl e, s)
             | Inr txt \<Rightarrow>
                 (let cmd = ''CH'' @ str_int ch_num @ '':POSition '' @ txt
                  in discard (command T s cmd))))"

definition get_channel_position ::
  "builtins \<Rightarrow> transport \<Rightarrow> instr \<Rightarrow> int \<Rightarrow> number result" where
  "get_channel_position P T s ch_num =
     (case check_ch_num ch_num of
        Inl e \<Rightarrow> (Inl e, s)
      | Inr u \<Rightarrow>
          (let cmd = ''CH'' @ str_int ch_num @ '':POSition?''
           in parse_float P (query T s cmd)))"

text \<open>
  The math catalog: the channel number goes into the text unchecked, with
  \<^verbatim>\<open>{num:d}\<close> or \<^verbatim>\<open>{num}\<close>; when the interpreter refuses the text, the exception
  leaves the method before the session is called.
\<close>

definition set_math_channel_type ::
  "builtins \<Rightarrow> transport \<Rightarrow> instr \<Rightarrow> int \<Rightarrow> string \<Rightarrow> unit result" where
  "set_math_channel_type P T s num math_type =
     (if math_type \<notin> {''DUAL'', ''FFT'', ''ADVanced'', ''SPECTRUM''} then
        (Inl (ValueError (''Invalid value for math_type: '' @ math_type)), s)
      else
        (case int_text P num of
           Inl e \<Rightarrow> (Inl e, s)
         | Inr txt \<Rightarrow>
             (let cmd = ''MATH'' @ txt @ '':TYPe '' @ math_type
              in discard (command T s cmd))))"

definition get_math_channel_type ::
  "builtins \<Rightarrow> transport \<Rightarrow> instr \<Rightarrow> int \<Rightarrow> string result" where
  "get_math_channel_type P T s num =
     (case int_text P num of
        Inl e \<Rightarrow> (Inl e, s)
      | Inr txt \<Rightarrow>
          (let cmd = ''MATH'' @ txt @ '':TYPe?''
           in query T s cmd))"

definition set_math_channel_function ::
  "builtins \<Rightarrow> transport \<Rightarrow> instr \<Rightarrow> int \<Rightarrow> string \<Rightarrow> unit result" where
  "set_math_channel_function P T s num function =
     (case int_text P num of
        Inl e \<Rightarrow> (Inl e, s)
      | Inr txt \<Rightarrow>
          (let cmd = ''MATH'' @ txt @ '':DEFine '' @ [DQ] @ function @ [DQ]
           in discard (command T s cmd)))"

definition get_math_channel_function ::
  "builtins \<Rightarrow> transport \<Rightarrow> instr \<Rightarrow> int \<Rightarrow> string result" where
  "get_math_channel_function P T s num =
     (case int_text P num of
        Inl e \<Rightarrow> (Inl e, s)
      | Inr txt \<Rightarrow>
          (let cmd = ''MATH'' @ txt @ '':DEFine?''
           in case query T s cmd of
                (Inl e, s') \<Rightarrow> (Inl e, s')
              | (Inr r, s') \<Rightarrow> (Inr (strip_quotes (strip r)), s')))"

section \<open>Vocabulary of the properties\<close>

text \<open>
  Membership of a number in a closed interval of the rationals, and its sign, read
  mathematically: an infinity is in no bounded interval and a NaN has no sign.
\<close>

fun in_closed_interval :: "rat \<Rightarrow> rat \<Rightarrow> number \<Rightarrow> bool" where
  "in_closed_interval lo hi (Finite x) = (lo \<le> x \<and> x \<le> hi)"
| "in_closed_interval lo hi PosInf = False"
| "in_closed_interval lo hi NegInf = False"
| "in_closed_interval lo hi NaN = False"

fun is_positive :: "number \<Rightarrow> bool" where
  "is_positive (Finite x) = (0 < x)"
| "is_positive PosInf = True"
| "is_positive NegInf = False"
| "is_positive NaN = False"

fun is_nonpositive :: "number \<Rightarrow> bool" where
  "is_nonpositive (Finite x) = (x \<le> 0)"
| "is_nonpositive PosInf = False"
| "is_nonpositive NegInf = True"
| "is_nonpositive NaN = False"

text \<open>
  A simulated instrument for concrete runs: it opens, accepts every write (reporting
  the length of the message and its terminator), answers every query with the same
  text and closes. The simulated conversions print every number as the given text,
  under the interpreter's default digit limit.
\<close>

definition sim_transport :: "string \<Rightarrow> transport" where
  "sim_transport reply =
     \<lparr>open_resource = (\<lambda>args. Inr ()),
      inst_write = (\<lambda>h m. Inr (length m + 1)),
      inst_query = (\<lambda>h m. Inr reply),
      inst_close = (\<lambda>h. Inr ())\<rparr>"

definition sim_builtins :: "string \<Rightarrow> builtins" where
  "sim_builtins txt =
     \<lparr>format_num = (\<lambda>spec x. txt),
      repr_num = (\<lambda>x. txt),
      repr_str = (\<lambda>x. [CHR 0x27] @ x @ [CHR 0x27]),
      py_float = (\<lambda>x. Inl (''could not convert string to float: '' @ [CHR 0x27] @ x @ [CHR 0x27])),
      int_max_str_digits = 4300\<rparr>"

definition fresh :: instr where
  "fresh = \<lparr>resource_name = ''TCPIP0::192.168.0.10::INSTR'', calls = []\<rparr>"

section \<open>Basic facts\<close>

lemma num_le_interval:
  "(num_le (Finite lo) x \<and> num_le x (Finite hi)) = in_closed_interval lo hi x"
  by (cases x) simp_all

lemma num_le_zero: "num_le x (Finite 0) = is_nonpositive x"
  by (cases x) simp_all

lemma positive_not_nonpositive: "is_positive x \<Longrightarrow> \<not> is_nonpositive x"
  by (cases x) simp_all

text \<open>Formatting raises nothing on a value between -1000 and 1000.\<close>

lemma format_float_ok:
  "\<not> float_overflow x \<Longrightarrow> format_float P spec x = Inr (format_num P spec x)"
  by (simp add: format_float_def)

lemma float_limit_large: "1000 < float_limit"
  by (simp add: float_limit_def)

lemma interval_no_overflow:
  assumes "in_closed_interval lo hi x" and "- 1000 \<le> lo" and "hi \<le> 1000"
  shows "\<not> float_overflow x"
proof (cases x)
  case (Finite q)
  with assms have "\<bar>q\<bar> \<le> 1000"
    by (auto simp: abs_le_iff)
  with float_limit_large Finite show ?thesis
    by simp
qed (use assms in simp_all)

text \<open>
  The number of digits of the decimal text, in arithmetic: a natural number has
  more than \<open>k\<close> digits exactly when it is at least \<open>10 ^ k\<close>.
\<close>

lemma length_str_nat:
  "length (str_nat n) = (if n < 10 then 1 else Suc (length (str_nat (n div 10))))"
  by (subst str_nat.simps) simp

lemma length_str_nat_pos: "0 < length (str_nat n)"
  by (subst length_str_nat) simp

lemma more_digits_iff: "0 < k \<Longrightarrow> k < length (str_nat n) \<longleftrightarrow> 10 ^ k \<le> n"
proof (induction k arbitrary: n)
  case 0
  then show ?case
    by simp
next
  case (Suc k)
  show ?case
  proof (cases "n < 10")
    case True
    have "n < 10 ^ Suc k"
      using True by (rule less_le_trans) (simp add: self_le_power)
    with True show ?thesis
      by (subst length_str_nat) simp
  next
    case False
    have len: "length (str_nat n) = Suc (length (str_nat (n div 10)))"
      using False by (subst length_str_nat) simp
    show ?thesis
    proof (cases "k = 0")
      case True
      with False len length_str_nat_pos [of "n div 10"] show ?thesis
        by simp
    next
      case pos: False
      have "k < length (str_nat (n div 10)) \<longleftrightarrow> 10 ^ k \<le> n div 10"
        using pos Suc.IH [of "n div 10"] by simp
      also have "\<dots> \<longleftrightarrow> 10 ^ k * 10 \<le> n"
        by (simp add: less_eq_div_iff_mult_less_eq)
      finally show ?thesis
        using len by (simp add: mult.commute)
    qed
  qed
qed

lemma exceeds_str_limit_iff:
  "exceeds_str_limit P n \<longleftrightarrow>
   int_max_str_digits P \<noteq> 0 \<and> 10 ^ int_max_str_digits P \<le> \<bar>n\<bar>"
proof (cases "int_max_str_digits P = 0")
  case True
  then show ?thesis
    by (simp add: exceeds_str_limit_def)
next
  case False
  have "int_max_str_digits P < length (str_nat (nat \<bar>n\<bar>)) \<longleftrightarrow>
        10 ^ int_max_str_digits P \<le> nat \<bar>n\<bar>"
    using False by (simp add: more_digits_iff)
  also have "\<dots> \<longleftrightarrow> (10::int) ^ int_max_str_digits P \<le> \<bar>n\<bar>"
    by (simp add: le_nat_iff)
  finally show ?thesis
    using False by (simp add: exceeds_str_limit_def)
qed

lemma one_digit_within_limit: "\<bar>n\<bar> < 10 \<Longrightarrow> \<not> exceeds_str_limit P n"
proof
  assume small: "\<bar>n\<bar> < 10" and "exceeds_str_limit P n"
  then have k: "int_max_str_digits P \<noteq> 0" and big: "10 ^ int_max_str_digits P \<le> \<bar>n\<bar>"
    by (simp_all add: exceeds_str_limit_iff)
  have "(10::int) \<le> 10 ^ int_max_str_digits P"
    using k by (simp add: self_le_power)
  with small big show False
    by simp
qed

lemma int_text_ok: "\<not> exceeds_str_limit P n \<Longrightarrow> int_text P n = Inr (str_int n)"
  by (simp add: int_text_def)

lemma int_text_channel: "ch_num \<in> {1, 2, 3, 4} \<Longrightarrow> int_text P ch_num = Inr (str_int ch_num)"
  by (rule int_text_ok, rule one_digit_within_limit) auto

lemma check_ch_num_valid: "ch_num \<in> {1, 2, 3, 4} \<Longrightarrow> check_ch_num ch_num = Inr ()"
  by (simp add: check_ch_num_def CH_NUMS_def)

lemma check_ch_num_invalid:
  "ch_num \<notin> {1, 2, 3, 4} \<Longrightarrow>
   check_ch_num ch_num = Inl (ValueError (''Invalid ch_num: '' @ str_int ch_num))"
  by (simp add: check_ch_num_def CH_NUMS_def)

lemma snd_command: "snd (command T s m) = s\<lparr>calls := calls s @ [Write m]\<rparr>"
  by (simp add: command_def write_message_def)

lemma fst_command_not_ValueError: "fst (command T s m) \<noteq> Inl (ValueError msg)"
  by (simp add: command_def write_message_def split: sum.splits)

lemma snd_query: "snd (query T s m) = s\<lparr>calls := calls s @ [Query m]\<rparr>"
  by (simp add: query_def)

lemma fst_query_not_ValueError: "fst (query T s m) \<noteq> Inl (ValueError msg)"
  by (simp add: query_def split: sum.splits)

lemma snd_discard: "snd (discard r) = snd r"
  by (cases r) (simp add: discard_def split: sum.splits)

lemma fst_discard_not_ValueError:
  "fst r \<noteq> Inl (ValueError msg) \<Longrightarrow> fst (discard r) \<noteq> Inl (ValueError msg)"
  by (cases r) (auto simp: discard_def split: sum.splits)

text \<open>
  \<open>close\<close> keeps no flag of its own: each call is passed on to the resource, and
  whether a second call succeeds is what the resource's \<^verbatim>\<open>close\<close> answers then.
\<close>

lemma snd_close: "snd (close T s) = s\<lparr>calls := calls s @ [Close]\<rparr>"
  by (simp add: close_def)

lemma fst_close_again:
  "fst (close T (snd (close T s))) =
     (case inst_close T (calls s @ [Close]) of Inl e \<Rightarrow> Inl (Visa e) | Inr u \<Rightarrow> Inr ())"
  by (simp add: close_def)

lemma x_scale_accept:
  "(num_le x_scale_lo scale \<and> num_le scale (Finite 1000)) =
   in_closed_interval (1208925819614629 / 2 ^ 78) 1000 scale"
  unfolding x_scale_lo_def by (rule num_le_interval)

section \<open>Horizontal scale\<close>

text \<open>
  C1. The claim gives the accepted scales as the closed interval from 400e-12 to 1000.
  The value \<open>2 ^ -30\<close> seconds (about 0.93 ns) lies in that interval, and
  \<open>set_x_scale\<close> rejects it with its validation error, whose text names 400 ps as
  the lower bound: the bound the code compares with is \<^verbatim>\<open>400 * 10E-12\<close>, four
  nanoseconds.
\<close>

theorem set_x_scale_rejects_below_4ns:
  "in_closed_interval (400 / 10 ^ 12) 1000 (Finite (1 / 2 ^ 30)) \<and>
   set_x_scale P T s (Finite (1 / 2 ^ 30)) =
     (Inl (ValueError
        (''Parameter scale must be between 400 * 10E-12 (400 ps) and 1000, but got ''
         @ repr_num P (Finite (1 / 2 ^ 30)))), s)"
  by (simp add: set_x_scale_def x_scale_lo_def)

text \<open>
  C2. \<open>set_x_scale\<close> never calls the session: whatever the scale, the instrument
  and the calls made on its session are afterwards what they were before, and for
  a scale that passes the range check the method returns normally.
\<close>

theorem set_x_scale_sends_nothing:
  "snd (set_x_scale P T s scale) = s \<and>
   (in_closed_interval (1208925819614629 / 2 ^ 78) 1000 scale \<longrightarrow>
      set_x_scale P T s scale = (Inr (), s))"
proof -
  have frame: "snd (set_x_scale P T s scale) = s"
    by (simp add: set_x_scale_def Let_def split: sum.splits)
  have accepted: "set_x_scale P T s scale = (Inr (), s)"
    if "in_closed_interval (1208925819614629 / 2 ^ 78) 1000 scale"
    using that interval_no_overflow [OF that]
    by (simp add: set_x_scale_def x_scale_accept format_float_ok)
  from frame accepted show ?thesis
    by blast
qed

theorem set_x_scale_sends_nothing_witness:
  "in_closed_interval (1208925819614629 / 2 ^ 78) 1000 (Finite (1 / 1000)) \<and>
   set_x_scale (sim_builtins ''1.0000E-03'') (sim_transport []) fresh (Finite (1 / 1000))
     = (Inr (), fresh) \<and>
   calls (snd (set_x_scale (sim_builtins ''1.0000E-03'') (sim_transport []) fresh
     (Finite (1 / 1000)))) = []"
  using set_x_scale_sends_nothing
    [of "sim_builtins ''1.0000E-03''" "sim_transport []" fresh "Finite (1 / 1000)"]
  by (simp add: fresh_def)

section \<open>Communication check and construction\<close>

lemma check_communication_InstrIOError_iff:
  "(\<exists>m. fst (check_communication T s) = Inl (InstrIOError m)) \<longleftrightarrow>
   (\<exists>c. inst_query T (calls s) ''*IDN?'' = Inl (VisaIOError c))"
  by (auto simp: check_communication_def idn_def query_def
      split: sum.splits exn.splits visa_error.splits)

text \<open>
  C3. The claim has an empty identity string surface as \<open>InstrIOError\<close>. With a
  resource that answers every query with the empty string, the identity query is
  made and \<open>check_communication\<close> raises the \<open>ValueError\<close> \<^verbatim>\<open>Empty IDN.\<close>: the
  \<^verbatim>\<open>except\<close> clause converts \<^verbatim>\<open>pyvisa.VisaIOError\<close> only.
\<close>

theorem check_communication_empty_idn:
  "check_communication (sim_transport []) s =
     (Inl (ValueError ''Empty IDN.''), s\<lparr>calls := calls s @ [Query ''*IDN?'']\<rparr>)"
  by (simp add: check_communication_def idn_def query_def sim_transport_def)

text \<open>
  C8. \<open>create\<close> never raises: it returns the instance that \<open>init\<close> built, or
  \<open>None\<close> when \<open>init\<close> raised.
\<close>

theorem create_never_raises:
  "(\<exists>i. init T args = Inr i \<and> create T args = Inr (Some i)) \<or>
   ((\<exists>e. init T args = Inl e) \<and> create T args = Inr None)"
  by (cases "init T args") (simp_all add: create_def)

lemma create_sim_empty_idn: "create (sim_transport []) args = Inr None"
  by (simp add: create_def init_def check_communication_def idn_def query_def
      sim_transport_def)

lemma create_sim_instance:
  "create (sim_transport ''TEKTRONIX,MDO34'') (default_args ''GPIB0::1::INSTR'') =
     Inr (Some \<lparr>resource_name = ''GPIB0::1::INSTR'', calls = [Query ''*IDN?'']\<rparr>)"
  by (simp add: create_def init_def check_communication_def idn_def query_def
      sim_transport_def default_args_def)

section \<open>Channel catalog\<close>

text \<open>
  C4. With a channel number outside 1, 2, 3, 4 each of the ten channel methods
  raises the \<open>ValueError\<close> of \<open>check_ch_num\<close> and leaves the instrument, and
  with it the calls made on the session, as it was.
\<close>

theorem invalid_channel_rejected_before_sending:
  assumes "ch_num \<notin> {1, 2, 3, 4}"
  shows "set_channel_label P T s ch_num label =
           (Inl (ValueError (''Invalid ch_num: '' @ str_int ch_num)), s) \<and>
         get_channel_label T s ch_num =
           (Inl (ValueError (''Invalid ch_num: '' @ str_int ch_num)), s) \<and>
         set_channel_coupling P T s ch_num coupling =
           (Inl (ValueError (''Invalid ch_num: '' @ str_int ch_num)), s) \<and>
         get_channel_coupling T s ch_num =
           (Inl (ValueError (''Invalid ch_num: '' @ str_int ch_num)), s) \<and>
         set_channel_bandwidth P T s ch_num bandwidth =
           (Inl (ValueError (''Invalid ch_num: '' @ str_int ch_num)), s) \<and>
         get_channel_bandwidth P T s ch_num =
           (Inl (ValueError (''Invalid ch_num: '' @ str_int ch_num)), s) \<and>
         set_channel_scale P T s ch_num scale =
           (Inl (ValueError (''Invalid ch_num: '' @ str_int ch_num)), s) \<and>
         get_channel_scale P T s ch_num =
           (Inl (ValueError (''Invalid ch_num: '' @ str_int ch_num)), s) \<and>
         set_channel_position P T s ch_num position =
           (Inl (ValueError (''Invalid ch_num: '' @ str_int ch_num)), s) \<and>
         get_channel_position P T s ch_num =
           (Inl (ValueError (''Invalid ch_num: '' @ str_int ch_num)), s)"
  using check_ch_num_invalid [OF assms]
  by (simp add: set_channel_label_def get_channel_label_def set_channel_coupling_def
      get_channel_coupling_def set_channel_bandwidth_def get_channel_bandwidth_def
      set_channel_scale_def get_channel_scale_def set_channel_position_def
      get_channel_position_def)

theorem invalid_channel_rejected_before_sending_witness:
  "(5::int) \<notin> {1, 2, 3, 4} \<and>
   set_channel_label (sim_builtins ''1'') (sim_transport ''1'') fresh 5 ''probe'' =
     (Inl (ValueError ''Invalid ch_num: 5''), fresh) \<and>
   get_channel_label (sim_transport ''1'') fresh 5 =
     (Inl (ValueError ''Invalid ch_num: 5''), fresh) \<and>
   set_channel_coupling (sim_builtins ''1'') (sim_transport ''1'') fresh 5 ''AC'' =
     (Inl (ValueError ''Invalid ch_num: 5''), fresh) \<and>
   get_channel_coupling (sim_transport ''1'') fresh 5 =
     (Inl (ValueError ''Invalid ch_num: 5''), fresh) \<and>
   set_channel_bandwidth (sim_builtins ''1'') (sim_transport ''1'') fresh 5 (Finite 1) =
     (Inl (ValueError ''Invalid ch_num: 5''), fresh) \<and>
   get_channel_bandwidth (sim_builtins ''1'') (sim_transport ''1'') fresh 5 =
     (Inl (ValueError ''Invalid ch_num: 5''), fresh) \<and>
   set_channel_scale (sim_builtins ''1'') (sim_transport ''1'') fresh 5 (Finite 1) =
     (Inl (ValueError ''Invalid ch_num: 5''), fresh) \<and>
   get_channel_scale (sim_builtins ''1'') (sim_transport ''1'') fresh 5 =
     (Inl (ValueError ''Invalid ch_num: 5''), fresh) \<and>
   set_channel_position (sim_builtins ''1'') (sim_transport ''1'') fresh 5 (Finite 1) =
     (Inl (ValueError ''Invalid ch_num: 5''), fresh) \<and>
   get_channel_position (sim_builtins ''1'') (sim_transport ''1'') fresh 5 =
     (Inl (ValueError ''Invalid ch_num: 5''), fresh)"
proof -
  have bad: "(5::int) \<notin> {1, 2, 3, 4}"
    by simp
  have five: "str_int 5 = ''5''"
    by (simp add: str_int_def str_nat.simps)
  show ?thesis
    using bad invalid_channel_rejected_before_sending
      [OF bad, of "sim_builtins ''1''" "sim_transport ''1''" fresh "''probe''" "''AC''"
        "Finite 1" "Finite 1" "Finite 1"]
    by (simp add: five)
qed

text \<open>
  C5. For a valid channel, \<open>set_channel_position\<close> accepts exactly the positions of
  the closed interval from -8 to 8: such a position raises no validation error and
  its command is the one call added to the session; any other position (a finite
  value outside the interval, an infinity, a NaN) raises the validation error and
  the session is not called.
\<close>

theorem set_channel_position_accepts_interval:
  assumes "ch_num \<in> {1, 2, 3, 4}"
  shows "(in_closed_interval (- 8) 8 position \<longrightarrow>
            snd (set_channel_position P T s ch_num position) =
              s\<lparr>calls := calls s @
                [Write (''CH'' @ str_int ch_num @ '':POSition ''
                        @ format_num P (FixedF 3) position)]\<rparr> \<and>
            (\<forall>msg. fst (set_channel_position P T s ch_num position) \<noteq> Inl (ValueError msg))) \<and>
         (\<not> in_closed_interval (- 8) 8 position \<longrightarrow>
            set_channel_position P T s ch_num position =
              (Inl (ValueError
                 (''Parameter position must be between -8 and 8, but got ''
                  @ repr_num P position)), s))"
proof -
  have fmt: "format_float P (FixedF 3) position = Inr (format_num P (FixedF 3) position)"
    if "in_closed_interval (- 8) 8 position"
    using interval_no_overflow [OF that] by (simp add: format_float_ok)
  show ?thesis
    using check_ch_num_valid [OF assms] fmt
    by (simp add: set_channel_position_def num_le_interval Let_def snd_discard snd_command
        fst_discard_not_ValueError fst_command_not_ValueError)
qed

theorem set_channel_position_accepts_interval_witness:
  "(1::int) \<in> {1, 2, 3, 4} \<and>
   in_closed_interval (- 8) 8 (Finite 8) \<and>
   calls (snd (set_channel_position (sim_builtins ''8.000'') (sim_transport []) fresh 1
     (Finite 8))) = [Write ''CH1:POSition 8.000''] \<and>
   in_closed_interval (- 8) 8 (Finite (- 8)) \<and>
   calls (snd (set_channel_position (sim_builtins ''-8.000'') (sim_transport []) fresh 1
     (Finite (- 8)))) = [Write ''CH1:POSition -8.000''] \<and>
   \<not> in_closed_interval (- 8) 8 (Finite (801 / 100)) \<and>
   set_channel_position (sim_builtins ''8.01'') (sim_transport []) fresh 1
     (Finite (801 / 100)) =
     (Inl (ValueError ''Parameter position must be between -8 and 8, but got 8.01''),
      fresh) \<and>
   \<not> in_closed_interval (- 8) 8 (Finite (- 801 / 100)) \<and>
   set_channel_position (sim_builtins ''-8.01'') (sim_transport []) fresh 1
     (Finite (- 801 / 100)) =
     (Inl (ValueError ''Parameter position must be between -8 and 8, but got -8.01''),
      fresh)"
proof -
  have ok: "(1::int) \<in> {1, 2, 3, 4}"
    by simp
  have one: "str_int 1 = ''1''"
    by (simp add: str_int_def str_nat.simps)
  show ?thesis
    using ok
      set_channel_position_accepts_interval
        [OF ok, of "Finite 8" "sim_builtins ''8.000''" "sim_transport []" fresh]
      set_channel_position_accepts_interval
        [OF ok, of "Finite (- 8)" "sim_builtins ''-8.000''" "sim_transport []" fresh]
      set_channel_position_accepts_interval
        [OF ok, of "Finite (801 / 100)" "sim_builtins ''8.01''" "sim_transport []" fresh]
      set_channel_position_accepts_interval
        [OF ok, of "Finite (- 801 / 100)" "sim_builtins ''-8.01''" "sim_transport []" fresh]
    by (simp add: one fresh_def sim_builtins_def)
qed

text \<open>
  C6, as the claim states it, fails for a positive int beyond the range of a float:
  with bandwidth or scale \<open>10 ^ 400\<close> the format of the command text raises
  \<^verbatim>\<open>OverflowError\<close> and the session is not called.
\<close>

theorem positive_int_beyond_float_sends_nothing:
  "is_positive (Finite (10 ^ 400)) \<and>
   set_channel_bandwidth (sim_builtins []) (sim_transport []) fresh 2 (Finite (10 ^ 400)) =
     (Inl (OverflowError ''int too large to convert to float''), fresh) \<and>
   set_channel_scale (sim_builtins []) (sim_transport []) fresh 2 (Finite (10 ^ 400)) =
     (Inl (OverflowError ''int too large to convert to float''), fresh)"
  by (simp add: set_channel_bandwidth_def set_channel_scale_def check_ch_num_def
      CH_NUMS_def format_float_def float_limit_def)

text \<open>
  C6, amended. For a valid channel, \<open>set_channel_bandwidth\<close> and
  \<open>set_channel_scale\<close> raise the validation error on every value that is at most
  zero, without calling the session; on every value greater than zero that is a
  float or an int within the range of a float they raise no validation error and
  the formatted command is the one call added to the session.
\<close>

theorem bandwidth_and_scale_need_positive:
  assumes "ch_num \<in> {1, 2, 3, 4}"
  shows "(is_nonpositive x \<longrightarrow>
            set_channel_bandwidth P T s ch_num x =
              (Inl (ValueError
                 (''Parameter bandwidth must be a positive float, but got ''
                  @ repr_num P x)), s) \<and>
            set_channel_scale P T s ch_num x =
              (Inl (ValueError
                 (''Parameter scale must be a positive float, but got ''
                  @ repr_num P x)), s)) \<and>
         (is_positive x \<and> \<not> float_overflow x \<longrightarrow>
            snd (set_channel_bandwidth P T s ch_num x) =
              s\<lparr>calls := calls s @
                [Write (''CH'' @ str_int ch_num @ '':BANdwidth ''
                        @ format_num P (SciE 4) x)]\<rparr> \<and>
            (\<forall>msg. fst (set_channel_bandwidth P T s ch_num x) \<noteq> Inl (ValueError msg)) \<and>
            snd (set_channel_scale P T s ch_num x) =
              s\<lparr>calls := calls s @
                [Write (''CH'' @ str_int ch_num @ '':SCAle ''
                        @ format_num P (SciE 3) x)]\<rparr> \<and>
            (\<forall>msg. fst (set_channel_scale P T s ch_num x) \<noteq> Inl (ValueError msg)))"
  using check_ch_num_valid [OF assms] positive_not_nonpositive [of x]
  by (auto simp: set_channel_bandwidth_def set_channel_scale_def num_le_zero Let_def
      format_float_ok snd_discard snd_command fst_discard_not_ValueError
      fst_command_not_ValueError)

theorem bandwidth_and_scale_need_positive_witness:
  "(2::int) \<in> {1, 2, 3, 4} \<and>
   is_nonpositive (Finite 0) \<and>
   set_channel_bandwidth (sim_builtins ''0'') (sim_transport []) fresh 2 (Finite 0) =
     (Inl (ValueError ''Parameter bandwidth must be a positive float, but got 0''), fresh) \<and>
   set_channel_scale (sim_builtins ''0'') (sim_transport []) fresh 2 (Finite 0) =
     (Inl (ValueError ''Parameter scale must be a positive float, but got 0''), fresh) \<and>
   is_positive (Finite 20000000) \<and> \<not> float_overflow (Finite 20000000) \<and>
   calls (snd (set_channel_bandwidth (sim_builtins ''2.0000E+07'') (sim_transport []) fresh 2
     (Finite 20000000))) = [Write ''CH2:BANdwidth 2.0000E+07''] \<and>
   is_positive (Finite (1 / 2)) \<and> \<not> float_overflow (Finite (1 / 2)) \<and>
   calls (snd (set_channel_scale (sim_builtins ''5.000E-01'') (sim_transport []) fresh 2
     (Finite (1 / 2)))) = [Write ''CH2:SCAle 5.000E-01'']"
proof -
  have ok: "(2::int) \<in> {1, 2, 3, 4}"
    by simp
  have two: "str_int 2 = ''2''"
    by (simp add: str_int_def str_nat.simps)
  show ?thesis
    using ok
      bandwidth_and_scale_need_positive
        [OF ok, of "Finite 0" "sim_builtins ''0''" "sim_transport []" fresh]
      bandwidth_and_scale_need_positive
        [OF ok, of "Finite 20000000" "sim_builtins ''2.0000E+07''" "sim_transport []" fresh]
      bandwidth_and_scale_need_positive
        [OF ok, of "Finite (1 / 2)" "sim_builtins ''5.000E-01''" "sim_transport []" fresh]
    by (simp add: two fresh_def sim_builtins_def float_limit_def)
qed

section \<open>String-valued getters\<close>

lemma strip_where_ends:
  assumes "strip_where p s \<noteq> []"
  shows "\<not> p (hd (strip_where p s)) \<and> \<not> p (last (strip_where p s))"
proof -
  let ?a = "dropWhile p s"
  let ?b = "dropWhile p (rev ?a)"
  from assms have b: "?b \<noteq> []"
    by (simp add: strip_where_def)
  have a: "?a \<noteq> []"
  proof
    assume empty: "?a = []"
    have "?b = []"
      unfolding empty by simp
    with b show False
      by contradiction
  qed
  have "last (strip_where p s) = hd ?b"
    using b by (simp add: strip_where_def last_rev)
  moreover have "\<not> p (hd ?b)"
    using b by (rule hd_dropWhile)
  moreover have "hd (strip_where p s) = last ?b"
    using b by (simp add: strip_where_def hd_rev)
  moreover have "last ?b = last (rev ?a)"
    using b by (metis append_Nil2 last_appendR takeWhile_dropWhile_id)
  moreover have "last (rev ?a) = hd ?a"
    using a by (simp add: last_rev)
  moreover have "\<not> p (hd ?a)"
    using a by (rule hd_dropWhile)
  ultimately show ?thesis
    by simp
qed

lemma get_math_channel_type_raw:
  "\<not> exceeds_str_limit P num \<Longrightarrow>
   inst_query T (calls s) (''MATH'' @ str_int num @ '':TYPe?'') = Inr r \<Longrightarrow>
   fst (get_math_channel_type P T s num) = Inr r"
  by (simp add: get_math_channel_type_def int_text_ok query_def)

text \<open>
  C7, as the claim states it, fails for \<open>get_channel_coupling\<close>: when the
  instrument answers the four characters \<^verbatim>\<open>"AC"\<close>, the getter returns them with
  their quotes, while stripping whitespace and then quotes gives \<^verbatim>\<open>AC\<close>.
\<close>

theorem get_channel_coupling_keeps_quotes:
  "fst (get_channel_coupling (sim_transport [DQ, CHR ''A'', CHR ''C'', DQ]) fresh 1) =
     Inr [DQ, CHR ''A'', CHR ''C'', DQ] \<and>
   strip_quotes (strip [DQ, CHR ''A'', CHR ''C'', DQ]) = ''AC'' \<and>
   fst (get_channel_coupling (sim_transport [DQ, CHR ''A'', CHR ''C'', DQ]) fresh 1) \<noteq>
     Inr (strip_quotes (strip [DQ, CHR ''A'', CHR ''C'', DQ]))"
  by (simp add: get_channel_coupling_def check_ch_num_def CH_NUMS_def query_def
      sim_transport_def strip_def strip_quotes_def strip_where_def is_space_def)

text \<open>
  C7, amended. For every response text \<open>r\<close> of the instrument,
  \<open>get_channel_label\<close> and \<open>get_math_channel_function\<close> return \<open>r\<close> with
  surrounding whitespace stripped and then surrounding double quotes stripped;
  \<open>get_channel_coupling\<close> returns \<open>r\<close> with surrounding whitespace stripped and
  removes no quotes. (The math getter has a response whenever it makes its query,
  that is when the text of its channel number is within the digit limit.)
\<close>

theorem string_getters_strip:
  assumes "ch_num \<in> {1, 2, 3, 4}"
  shows "(inst_query T (calls s) (''CH'' @ str_int ch_num @ '':LABel?'') = Inr r \<longrightarrow>
            fst (get_channel_label T s ch_num) = Inr (strip_quotes (strip r))) \<and>
         (\<not> exceeds_str_limit P num \<and>
          inst_query T (calls s) (''MATH'' @ str_int num @ '':DEFine?'') = Inr r \<longrightarrow>
            fst (get_math_channel_function P T s num) = Inr (strip_quotes (strip r))) \<and>
         (inst_query T (calls s) (''CH'' @ str_int ch_num @ '':COUPling?'') = Inr r \<longrightarrow>
            fst (get_channel_coupling T s ch_num) = Inr (strip r))"
  using check_ch_num_valid [OF assms]
  by (simp add: get_channel_label_def get_math_channel_function_def
      get_channel_coupling_def int_text_ok query_def Let_def)

theorem string_getters_strip_witness:
  "(1::int) \<in> {1, 2, 3, 4} \<and>
   fst (get_channel_label
     (sim_transport [CHR '' '', DQ, CHR ''V'', CHR ''i'', CHR ''n'', DQ, CHR 0x0D]) fresh 1) =
     Inr ''Vin'' \<and>
   \<not> exceeds_str_limit (sim_builtins []) 7 \<and>
   fst (get_math_channel_function (sim_builtins [])
     (sim_transport [CHR '' '', DQ, CHR ''V'', CHR ''i'', CHR ''n'', DQ, CHR 0x0D]) fresh 7) =
     Inr ''Vin'' \<and>
   fst (get_channel_coupling
     (sim_transport [CHR '' '', DQ, CHR ''V'', CHR ''i'', CHR ''n'', DQ, CHR 0x0D]) fresh 1) =
     Inr [DQ, CHR ''V'', CHR ''i'', CHR ''n'', DQ]"
proof -
  have ok: "(1::int) \<in> {1, 2, 3, 4}"
    by simp
  have within: "\<not> exceeds_str_limit (sim_builtins []) 7"
    by (rule one_digit_within_limit) simp
  show ?thesis
    using ok within string_getters_strip
      [OF ok,
        where T = "sim_transport [CHR '' '', DQ, CHR ''V'', CHR ''i'', CHR ''n'', DQ, CHR 0x0D]"
          and s = fresh
          and r = "[CHR '' '', DQ, CHR ''V'', CHR ''i'', CHR ''n'', DQ, CHR 0x0D]"
          and P = "sim_builtins []" and num = 7]
    by (simp add: sim_transport_def strip_def strip_quotes_def strip_where_def is_space_def)
qed

section \<open>Math catalog\<close>

text \<open>
  C10, as the claim states it, fails for an integer with more digits than the
  interpreter turns into text: under the default limit of 4300 digits, with
  \<open>num = 10 ^ 4300\<close> each of the four math methods raises the \<open>ValueError\<close> of the
  conversion and the session is not called.
\<close>

theorem math_channel_number_beyond_digit_limit:
  "set_math_channel_type (sim_builtins []) (sim_transport []) fresh (10 ^ 4300) ''FFT'' =
     (Inl (ValueError
        (''Exceeds the limit (4300 digits) for integer string conversion; ''
         @ ''use sys.set_int_max_str_digits() to increase the limit'')), fresh) \<and>
   get_math_channel_type (sim_builtins []) (sim_transport []) fresh (10 ^ 4300) =
     (Inl (ValueError
        (''Exceeds the limit (4300 digits) for integer string conversion; ''
         @ ''use sys.set_int_max_str_digits() to increase the limit'')), fresh) \<and>
   set_math_channel_function (sim_builtins []) (sim_transport []) fresh (10 ^ 4300)
       ''CH1+CH2'' =
     (Inl (ValueError
        (''Exceeds the limit (4300 digits) for integer string conversion; ''
         @ ''use sys.set_int_max_str_digits() to increase the limit'')), fresh) \<and>
   get_math_channel_function (sim_builtins []) (sim_transport []) fresh (10 ^ 4300) =
     (Inl (ValueError
        (''Exceeds the limit (4300 digits) for integer string conversion; ''
         @ ''use sys.set_int_max_str_digits() to increase the limit'')), fresh)"
proof -
  have limit: "int_max_str_digits (sim_builtins []) = 4300"
    by (simp add: sim_builtins_def)
  have beyond: "exceeds_str_limit (sim_builtins []) (10 ^ 4300)"
    unfolding exceeds_str_limit_iff limit by (intro conjI abs_ge_self) simp
  have digits: "str_nat 4300 = ''4300''"
    by (simp add: str_nat.simps)
  have refused: "int_text (sim_builtins []) (10 ^ 4300) =
      Inl (ValueError
        (''Exceeds the limit (4300 digits) for integer string conversion; ''
         @ ''use sys.set_int_max_str_digits() to increase the limit''))"
    unfolding int_text_def by (simp only: beyond if_True limit digits) simp
  show ?thesis
    unfolding set_math_channel_type_def get_math_channel_type_def
      set_math_channel_function_def get_math_channel_function_def refused
    by simp
qed

text \<open>
  C10, amended. The math methods do not check the channel number. For every integer
  \<open>num\<close>, negative ones and zero included, whose decimal text is within the
  interpreter's digit limit (4300 digits by default, or no limit set), none of the
  four raises a validation error (\<open>set_math_channel_type\<close> given one of its four
  math types), and each hands the session one command or query whose text starts
  with \<^verbatim>\<open>MATH\<close> and the decimal text of \<open>num\<close>.
\<close>

theorem math_channel_number_unchecked:
  assumes "\<not> exceeds_str_limit P num"
  shows "(math_type \<in> {''DUAL'', ''FFT'', ''ADVanced'', ''SPECTRUM''} \<longrightarrow>
            snd (set_math_channel_type P T s num math_type) =
              s\<lparr>calls := calls s @
                [Write (''MATH'' @ str_int num @ '':TYPe '' @ math_type)]\<rparr> \<and>
            (\<forall>msg. fst (set_math_channel_type P T s num math_type) \<noteq> Inl (ValueError msg))) \<and>
         snd (get_math_channel_type P T s num) =
           s\<lparr>calls := calls s @ [Query (''MATH'' @ str_int num @ '':TYPe?'')]\<rparr> \<and>
         (\<forall>msg. fst (get_math_channel_type P T s num) \<noteq> Inl (ValueError msg)) \<and>
         snd (set_math_channel_function P T s num expr) =
           s\<lparr>calls := calls s @
             [Write (''MATH'' @ str_int num @ '':DEFine '' @ [DQ] @ expr @ [DQ])]\<rparr> \<and>
         (\<forall>msg. fst (set_math_channel_function P T s num expr) \<noteq> Inl (ValueError msg)) \<and>
         snd (get_math_channel_function P T s num) =
           s\<lparr>calls := calls s @ [Query (''MATH'' @ str_int num @ '':DEFine?'')]\<rparr> \<and>
         (\<forall>msg. fst (get_math_channel_function P T s num) \<noteq> Inl (ValueError msg))"
proof -
  note decimal = int_text_ok [OF assms]
  have q: "snd (get_math_channel_function P T s num) =
             s\<lparr>calls := calls s @ [Query (''MATH'' @ str_int num @ '':DEFine?'')]\<rparr> \<and>
           (\<forall>msg. fst (get_math_channel_function P T s num) \<noteq> Inl (ValueError msg))"
    by (simp add: get_math_channel_function_def decimal query_def Let_def split: sum.splits)
  have t: "math_type \<in> {''DUAL'', ''FFT'', ''ADVanced'', ''SPECTRUM''} \<longrightarrow>
      snd (set_math_channel_type P T s num math_type) =
        s\<lparr>calls := calls s @
          [Write (''MATH'' @ str_int num @ '':TYPe '' @ math_type)]\<rparr> \<and>
      (\<forall>msg. fst (set_math_channel_type P T s num math_type) \<noteq> Inl (ValueError msg))"
    by (simp add: set_math_channel_type_def decimal Let_def snd_discard snd_command
        fst_discard_not_ValueError fst_command_not_ValueError)
  have g: "snd (get_math_channel_type P T s num) =
             s\<lparr>calls := calls s @ [Query (''MATH'' @ str_int num @ '':TYPe?'')]\<rparr> \<and>
           (\<forall>msg. fst (get_math_channel_type P T s num) \<noteq> Inl (ValueError msg))"
    by (simp add: get_math_channel_type_def decimal Let_def snd_query fst_query_not_ValueError)
  have f: "snd (set_math_channel_function P T s num expr) =
             s\<lparr>calls := calls s @
               [Write (''MATH'' @ str_int num @ '':DEFine '' @ [DQ] @ expr @ [DQ])]\<rparr> \<and>
           (\<forall>msg. fst (set_math_channel_function P T s num expr) \<noteq> Inl (ValueError msg))"
    by (simp add: set_math_channel_function_def decimal Let_def snd_discard snd_command
        fst_discard_not_ValueError fst_command_not_ValueError)
  from t g f q show ?thesis
    by blast
qed

theorem math_channel_number_unchecked_witness:
  "\<not> exceeds_str_limit (sim_builtins []) (- 3) \<and>
   ''FFT'' \<in> {''DUAL'', ''FFT'', ''ADVanced'', ''SPECTRUM''} \<and>
   calls (snd (set_math_channel_type (sim_builtins []) (sim_transport ''FFT'') fresh (- 3)
     ''FFT'')) = [Write ''MATH-3:TYPe FFT''] \<and>
   calls (snd (get_math_channel_type (sim_builtins []) (sim_transport ''FFT'') fresh (- 3))) =
     [Query ''MATH-3:TYPe?''] \<and>
   calls (snd (set_math_channel_function (sim_builtins []) (sim_transport ''FFT'') fresh (- 3)
     ''CH1+CH2'')) = [Write (''MATH-3:DEFine '' @ [DQ] @ ''CH1+CH2'' @ [DQ])] \<and>
   calls (snd (get_math_channel_function (sim_builtins []) (sim_transport ''FFT'') fresh
     (- 3))) = [Query ''MATH-3:DEFine?'']"
proof -
  have within: "\<not> exceeds_str_limit (sim_builtins []) (- 3)"
    by (rule one_digit_within_limit) simp
  have neg: "str_int (- 3) = ''-3''"
    by (simp add: str_int_def str_nat.simps)
  show ?thesis
    using within math_channel_number_unchecked
      [OF within, where math_type = "''FFT''" and T = "sim_transport ''FFT''"
        and s = fresh and expr = "''CH1+CH2''"]
    by (simp add: neg fresh_def)
qed

end
